theory Spec2Isabelle
  imports Main "HOL-Library.Word"
begin

section \<open>Data model of \<open>bcache/datao.go\<close>\<close>

text \<open>
  The file keeps, for one pass (a \<open>DLT\<close>) over a dataset, one \<open>DLTGroup\<close> per dataset
  partition.  All counters and ids are Go \<open>uint32\<close>: 32-bit words whose \<open>+\<close> and \<open>-\<close>
  wrap around.  Slices are lists; an index outside a slice and a remainder by zero are
  run-time panics of Go, so every function returns \<open>panic + result\<close>.
\<close>

type_synonym u32 = "32 word"

datatype panic = IndexOutOfRange | DivideByZero

definition pbind :: "panic + 'a \<Rightarrow> ('a \<Rightarrow> panic + 'b) \<Rightarrow> panic + 'b" where
  "pbind m f = (case m of Inl p \<Rightarrow> Inl p | Inr v \<Rightarrow> f v)"

text \<open>Reading \<open>xs[i]\<close> and writing \<open>xs[i] = v\<close> with Go's bounds check.\<close>

definition rd :: "'a list \<Rightarrow> u32 \<Rightarrow> panic + 'a" where
  "rd xs i = (if unat i < length xs then Inr (xs ! unat i) else Inl IndexOutOfRange)"

definition wr :: "'a list \<Rightarrow> u32 \<Rightarrow> 'a \<Rightarrow> panic + 'a list" where
  "wr xs i v = (if unat i < length xs then Inr (xs[unat i := v]) else Inl IndexOutOfRange)"

text \<open>
  The values of Go's \<open>error\<close> interface that the file builds with \<open>fmt.Errorf\<close>, one
  constructor per call site, with the formatted number as argument.  \<open>ReadAgain\<close> is the
  specification's \<open>AlreadyRequested\<close> (line 132), \<open>NoUnreadFile\<close> its \<open>Exhausted\<close>
  (line 223).  \<open>BackendError\<close> stands for any error of \<open>readFromBackend\<close> and
  \<open>AllocError\<close> for any error of \<open>utils.NewBitMap\<close>.
\<close>

datatype err =
    ReadAgain u32
  | NoCacheButCachedFileNum u32
  | NoUnreadButUnreadFileNum u32
  | NoCacheButCondition
  | NoUnreadFile u32
  | CantGetCachedFile
  | MarkedCachedNotCached u32
  | BackendError nat
  | AllocError

datatype ErrorCode = CODE_OK | CODE_EMPTY | CODE_NOT_FOUND | CODE_DLT_NOT_INIT

text \<open>
  Modelled from the spec: \<open>FileNode\<close> is declared outside this file; the code reads its
  field \<open>fileId\<close> only, the rest is the fetched content.
\<close>

record FileNode =
  node_fileId :: u32
  content :: string

text \<open>
  Modelled from the spec: \<open>Group\<close>, the dataset's partition, is declared outside this
  file.  The code reads its \<open>id\<close>, its \<open>fileNum\<close> and the cache-budget pair
  \<open>allowCacheSize\<close>, \<open>cachedSize\<close>, which it only compares.
\<close>

record Group =
  group_id :: u32
  group_fileNum :: u32
  allowCacheSize :: int
  cachedSize :: int

text \<open>
  Modelled from the spec: \<open>utils.BitMap\<close> is the external bit-indexed set, "fixed-capacity
  set of small integer ids with \<open>set\<close> and \<open>test\<close>", created empty by
  \<open>new(capacity)\<close>, which may fail.  Which capacities \<open>utils.NewBitMap\<close> refuses is not
  stated, so that is the parameter \<open>alloc\<close>.  A nil \<open>*BitMap\<close> (a group that \<open>init\<close> has
  not reached) is the empty bitmap of capacity 0.
\<close>

record BitMap =
  capacity :: u32
  bits :: "u32 \<Rightarrow> bool"

definition nilBitMap :: BitMap where
  "nilBitMap = \<lparr>capacity = 0, bits = (\<lambda>_. False)\<rparr>"

definition NewBitMap :: "(u32 \<Rightarrow> bool) \<Rightarrow> u32 \<Rightarrow> err + BitMap" where
  "NewBitMap alloc n =
     (if alloc n then Inr \<lparr>capacity = n, bits = (\<lambda>_. False)\<rparr> else Inl AllocError)"

definition BitMap_Get :: "BitMap \<Rightarrow> u32 \<Rightarrow> bool" where
  "BitMap_Get b i = bits b i"

definition BitMap_Set :: "BitMap \<Rightarrow> u32 \<Rightarrow> BitMap" where
  "BitMap_Set b i = b\<lparr>bits := (bits b)(i := True)\<rparr>"

text \<open>
  \<open>DLTGroup\<close> (lines 30-52).  The mutex and the condition variable are not fields of the
  model: every function below is one critical section of the source, run with the
  partition lock held.  The back pointer \<open>dlt\<close> is never read.  \<open>group\<close> points into
  \<open>dataset.groups\<close>; nothing in this file writes through it, so the model holds the
  pointee.  \<open>hasWiated\<close> is an \<open>int32\<close>, read signed.
\<close>

record DLTGroup =
  hasWiated :: u32
  group :: Group
  readedFilesReal :: BitMap
  readedFilesCache :: BitMap
  unreadFileNum :: u32
  unreadFilesIndexs :: "u32 list"
  unreadFiles :: "u32 list"
  readedCachedFileNum :: u32
  readedCachedFiles :: "u32 list"
  prereadFileNum :: u32
  cachedFileNum :: u32
  cacheedFilesCache :: "u32 list"
  cachedFiles :: "u32 list"

text \<open>
  Modelled from the spec: the dataset's content cache \<open>dataset.cachedFiles\<close>, "a mapping
  from file id to fetched content"; a nil entry is \<open>None\<close>.
\<close>

type_synonym content_cache = "u32 \<Rightarrow> FileNode option"

section \<open>The cache-available pool\<close>

text \<open>\<open>markCachedFileReaded\<close>, lines 266-281.\<close>

definition markCachedFileReaded :: "DLTGroup \<Rightarrow> u32 \<Rightarrow> u32 \<Rightarrow> panic + DLTGroup" where
  "markCachedFileReaded g fileId index =
     pbind (wr (readedCachedFiles g) (readedCachedFileNum g) fileId) (\<lambda>rc.
     let g1 = g\<lparr>readedCachedFiles := rc, readedCachedFileNum := readedCachedFileNum g + 1\<rparr>;
         lastId = cachedFileNum g1 - 1
     in pbind
          (if index \<noteq> lastId then
             pbind (rd (cachedFiles g1) lastId) (\<lambda>v.
             pbind (wr (cachedFiles g1) index v) (\<lambda>cf.
             pbind (rd cf lastId) (\<lambda>moved.
             pbind (wr (cacheedFilesCache g1) moved (index + 1)) (\<lambda>cc.
             Inr (g1\<lparr>cachedFiles := cf, cacheedFilesCache := cc\<rparr>)))))
           else Inr g1) (\<lambda>g2.
        pbind (wr (cacheedFilesCache g2) fileId 0) (\<lambda>cc.
        Inr (g2\<lparr>cacheedFilesCache := cc, cachedFileNum := cachedFileNum g2 - 1\<rparr>))))"

text \<open>
  \<open>getRandomCachedFile\<close>, lines 258-263.  \<open>r\<close> is the value of \<open>rand.Uint32()\<close>.  There is
  no test for an empty pool: the remainder by \<open>cachedFileNum = 0\<close> panics.
\<close>

definition getRandomCachedFile :: "DLTGroup \<Rightarrow> u32 \<Rightarrow> panic + (u32 \<times> bool \<times> DLTGroup)" where
  "getRandomCachedFile g r =
     (if cachedFileNum g = 0 then Inl DivideByZero
      else let randNum = r mod cachedFileNum g in
        pbind (rd (cachedFiles g) randNum) (\<lambda>fileId.
        pbind (markCachedFileReaded g fileId randNum) (\<lambda>g1.
        Inr (fileId, True, g1))))"

text \<open>
  \<open>getFileFromCache\<close>, lines 227-255: the substitution rule.  The result is the pair
  \<open>(node, error)\<close> of the source and the group as the call leaves it.
\<close>

definition getFileFromCache ::
  "content_cache \<Rightarrow> u32 \<Rightarrow> DLTGroup \<Rightarrow> u32 \<Rightarrow> panic + ((FileNode option \<times> err option) \<times> DLTGroup)" where
  "getFileFromCache cache fileId g r =
     pbind
       (if BitMap_Get (readedFilesCache g) fileId then getRandomCachedFile g r
        else pbind (rd (cacheedFilesCache g) fileId) (\<lambda>val.
          if val = 0 then getRandomCachedFile g r
          else pbind (markCachedFileReaded g fileId (val - 1)) (\<lambda>g1. Inr (fileId, True, g1))))
       (\<lambda>(tempId, ok, g1).
          if \<not> ok then Inr ((None, Some CantGetCachedFile), g1)
          else case cache tempId of
                 None \<Rightarrow> Inr ((None, Some (MarkedCachedNotCached tempId)), g1)
               | Some node \<Rightarrow> Inr ((Some node, None), g1))"

section \<open>The unread pool\<close>

text \<open>\<open>getRandomUnreadedFile\<close>, lines 284-305.\<close>

definition getRandomUnreadedFile :: "DLTGroup \<Rightarrow> u32 \<Rightarrow> panic + (u32 \<times> bool \<times> DLTGroup)" where
  "getRandomUnreadedFile g r =
     (if unreadFileNum g = 0 then Inr (0, False, g)
      else let randNum = r mod unreadFileNum g in
        pbind (rd (unreadFiles g) randNum) (\<lambda>fileId.
        let lastId = unreadFileNum g - 1 in
        pbind
          (if randNum \<noteq> lastId then
             pbind (rd (unreadFiles g) lastId) (\<lambda>v.
             pbind (wr (unreadFiles g) randNum v) (\<lambda>uf.
             pbind (rd uf lastId) (\<lambda>moved.
             pbind (wr (unreadFilesIndexs g) moved (randNum + 1)) (\<lambda>ui.
             Inr (g\<lparr>unreadFiles := uf, unreadFilesIndexs := ui\<rparr>)))))
           else Inr g) (\<lambda>g1.
        pbind (wr (unreadFilesIndexs g1) fileId 0) (\<lambda>ui.
        Inr (fileId, True, g1\<lparr>unreadFilesIndexs := ui, unreadFileNum := unreadFileNum g1 - 1\<rparr>)))))"

text \<open>\<open>addUnreadedFile\<close>, lines 308-327: the producer's \<open>register_unread\<close>.\<close>

definition addUnreadedFile :: "DLTGroup \<Rightarrow> u32 \<Rightarrow> panic + DLTGroup" where
  "addUnreadedFile g fileId =
     pbind (rd (unreadFilesIndexs g) fileId) (\<lambda>index.
     if index \<noteq> 0 then Inr g
     else if BitMap_Get (readedFilesCache g) fileId then Inr g
     else pbind (rd (cacheedFilesCache g) fileId) (\<lambda>c.
       if c \<noteq> 0 then Inr g
       else
         let g1 = g\<lparr>prereadFileNum := prereadFileNum g - 1\<rparr> in
         pbind (wr (unreadFiles g1) (unreadFileNum g1) fileId) (\<lambda>uf.
         let g2 = g1\<lparr>unreadFiles := uf, unreadFileNum := unreadFileNum g1 + 1\<rparr> in
         pbind (wr (unreadFilesIndexs g2) fileId (unreadFileNum g2)) (\<lambda>ui.
         Inr (g2\<lparr>unreadFilesIndexs := ui\<rparr>)))))"

text \<open>
  \<open>addFileToCache\<close>, lines 330-366: the producer's \<open>land_in_cache\<close>.  Besides the group
  it returns what the call emits: the warnings it prints and the \<open>cond.Signal()\<close>.
\<close>

datatype effect =
    WarnShouldntBeRead u32
  | WarnShouldntBeCached u32
  | WarnHasBeenCached u32
  | Signal

definition addFileToCache :: "DLTGroup \<Rightarrow> FileNode \<Rightarrow> panic + (DLTGroup \<times> effect list)" where
  "addFileToCache g node =
     (let fileId = node_fileId node in
      if BitMap_Get (readedFilesCache g) fileId then
        pbind (rd (readedCachedFiles g) fileId) (\<lambda>v.
        if v = 0 then
          pbind (wr (readedCachedFiles g) fileId (readedCachedFileNum g)) (\<lambda>rc.
          Inr (g\<lparr>readedCachedFiles := rc, readedCachedFileNum := readedCachedFileNum g + 1\<rparr>,
               [WarnShouldntBeRead fileId]))
        else Inr (g, [WarnShouldntBeRead fileId, WarnShouldntBeCached fileId]))
      else
        pbind (rd (unreadFilesIndexs g) fileId) (\<lambda>orgIndex.
        if orgIndex \<noteq> 0 then
          pbind
            (if orgIndex \<noteq> unreadFileNum g then
               pbind (rd (unreadFiles g) (unreadFileNum g - 1)) (\<lambda>v.
               wr (unreadFiles g) (orgIndex - 1) v)
             else Inr (unreadFiles g)) (\<lambda>uf.
          let g1 = g\<lparr>unreadFiles := uf, unreadFileNum := unreadFileNum g - 1\<rparr> in
          pbind (wr (unreadFilesIndexs g1) fileId 0) (\<lambda>ui.
          Inr (g1\<lparr>unreadFilesIndexs := ui\<rparr>, [])))
        else
          pbind (rd (cacheedFilesCache g) fileId) (\<lambda>c.
          if c = 0 then
            let g1 = g\<lparr>prereadFileNum := prereadFileNum g - 1\<rparr> in
            pbind (wr (cachedFiles g1) (cachedFileNum g1) fileId) (\<lambda>cf.
            let g2 = g1\<lparr>cachedFiles := cf, cachedFileNum := cachedFileNum g1 + 1\<rparr> in
            pbind (wr (cacheedFilesCache g2) fileId (cachedFileNum g2)) (\<lambda>cc.
            Inr (g2\<lparr>cacheedFilesCache := cc\<rparr>,
                 if 0 < sint (hasWiated g2) then [Signal] else [])))
          else Inr (g, [WarnHasBeenCached fileId]))))"

section \<open>\<open>Get\<close> on one partition\<close>

text \<open>
  \<open>Get\<close> (lines 101-224) holds the partition lock except while it fetches from the
  backend and while it waits on the condition variable; other callers run in between.
  The model has one function per critical section.  \<open>Get_locked\<close> is lines 130-207, from
  \<open>Lock\<close> to the first of: a return, the \<open>Unlock\<close> before \<open>readFromBackend\<close> (the step
  \<open>Fetching tempId\<close>), or \<open>cond.Wait()\<close> (the step \<open>Waiting\<close>).  \<open>Get_fetched\<close> is lines
  186-201, run on the group as it is when the fetch has come back, and \<open>Get_woken\<close> is
  lines 208-220, run on the group as it is when the waiter wakes.
\<close>

datatype get_step =
    Returned "FileNode option" ErrorCode "err option"
  | Fetching u32
  | Waiting

text \<open>Lines 169-180 of \<open>Get\<close>: taking \<open>tempId\<close> out of the unread pool.\<close>

definition removeFromUnread :: "DLTGroup \<Rightarrow> u32 \<Rightarrow> panic + DLTGroup" where
  "removeFromUnread g tempId =
     pbind (rd (unreadFilesIndexs g) tempId) (\<lambda>index.
     if index \<noteq> 0 then
       let lastId = unreadFileNum g - 1 in
       pbind
         (if index \<noteq> lastId then
            pbind (rd (unreadFiles g) lastId) (\<lambda>v.
            pbind (wr (unreadFiles g) index v) (\<lambda>uf.
            pbind (rd uf lastId) (\<lambda>moved.
            pbind (wr (unreadFilesIndexs g) moved index) (\<lambda>ui.
            Inr (g\<lparr>unreadFiles := uf, unreadFilesIndexs := ui\<rparr>)))))
          else Inr g) (\<lambda>g1.
       pbind (wr (unreadFilesIndexs g1) tempId 0) (\<lambda>ui.
       Inr (g1\<lparr>unreadFilesIndexs := ui, unreadFileNum := unreadFileNum g1 - 1\<rparr>)))
     else Inr g)"

text \<open>Lines 145-148 and 216-219: the two marks after a read from the cache.\<close>

definition markReaded :: "DLTGroup \<Rightarrow> u32 \<Rightarrow> u32 \<Rightarrow> DLTGroup" where
  "markReaded g tempId fileId =
     g\<lparr>readedFilesCache := BitMap_Set (readedFilesCache g) tempId,
       readedFilesReal := BitMap_Set (readedFilesReal g) fileId\<rparr>"

definition Get_locked ::
  "content_cache \<Rightarrow> DLTGroup \<Rightarrow> u32 \<Rightarrow> u32 \<Rightarrow> panic + (get_step \<times> DLTGroup)" where
  "Get_locked cache g fileId r =
     (if BitMap_Get (readedFilesReal g) fileId then
        Inr (Returned None CODE_EMPTY (Some (ReadAgain fileId)), g)
      else if 0 < cachedFileNum g then
        pbind (getFileFromCache cache fileId g r) (\<lambda>((node, e), g1).
        case e of
          Some er \<Rightarrow> Inr (Returned None CODE_EMPTY (Some er), g1)
        | None \<Rightarrow>
            (case node of
               None \<Rightarrow>
                 Inr (Returned None CODE_EMPTY
                        (Some (NoCacheButCachedFileNum (cachedFileNum g1))), g1)
             | Some n \<Rightarrow>
                 Inr (Returned (Some n) CODE_OK None, markReaded g1 (node_fileId n) fileId)))
      else if 0 < unreadFileNum g then
        pbind
          (if BitMap_Get (readedFilesCache g) fileId then getRandomUnreadedFile g r
           else Inr (fileId, True, g)) (\<lambda>(tempId, ok, g1).
        if \<not> ok then
          Inr (Returned None CODE_EMPTY
                 (Some (NoUnreadButUnreadFileNum (unreadFileNum g1))), g1)
        else
          pbind (removeFromUnread (markReaded g1 tempId fileId) tempId) (\<lambda>g2.
          Inr (Fetching tempId, g2)))
      else if 0 < prereadFileNum g then
        Inr (Waiting, g\<lparr>hasWiated := hasWiated g + 1\<rparr>)
      else Inr (Returned None CODE_EMPTY (Some (NoUnreadFile fileId)), g))"

text \<open>
  Lines 186-201.  \<open>node\<close> and \<open>e\<close> are what \<open>readFromBackend\<close> returned for \<open>tempId\<close>.
  Besides the group, the shared content cache is returned as the call leaves it.
\<close>

definition Get_fetched ::
  "content_cache \<Rightarrow> DLTGroup \<Rightarrow> u32 \<Rightarrow> FileNode option \<Rightarrow> err option \<Rightarrow>
     panic + (get_step \<times> DLTGroup \<times> content_cache)" where
  "Get_fetched cache g tempId node e =
     (case e of
        Some er \<Rightarrow> Inr (Returned None CODE_EMPTY (Some er), g, cache)
      | None \<Rightarrow>
          if allowCacheSize (group g) \<ge> cachedSize (group g) then
            pbind (wr (readedCachedFiles g) (readedCachedFileNum g) tempId) (\<lambda>rc.
            Inr (Returned node CODE_EMPTY None,
                 g\<lparr>readedCachedFiles := rc, readedCachedFileNum := readedCachedFileNum g + 1\<rparr>,
                 cache(tempId := node)))
          else Inr (Returned node CODE_EMPTY None, g, cache))"

text \<open>Lines 208-220: the woken waiter reads from the cache once.\<close>

definition Get_woken ::
  "content_cache \<Rightarrow> DLTGroup \<Rightarrow> u32 \<Rightarrow> u32 \<Rightarrow> panic + (get_step \<times> DLTGroup)" where
  "Get_woken cache g fileId r =
     pbind (getFileFromCache cache fileId (g\<lparr>hasWiated := hasWiated g - 1\<rparr>) r)
       (\<lambda>((node, e), g1).
        case e of
          Some er \<Rightarrow> Inr (Returned None CODE_EMPTY (Some er), g1)
        | None \<Rightarrow>
            (case node of
               None \<Rightarrow> Inr (Returned None CODE_EMPTY (Some NoCacheButCondition), g1)
             | Some n \<Rightarrow>
                 Inr (Returned (Some n) CODE_EMPTY None, markReaded g1 (node_fileId n) fileId)))"

section \<open>The pass: \<open>DLT\<close>\<close>

text \<open>
  Modelled from the spec: \<open>Dataset\<close> is declared outside this file.  The method
  \<open>GetFileId\<close> ("\<open>resolve_name(name) -> Option<file_id>\<close>") and the table
  \<open>fileIdToGroups\<close> ("\<open>partition_of(file_id) -> partition_id\<close>") are fields of the model.
\<close>

record Dataset =
  dataset_id :: u32
  groupNum :: u32
  dataset_groups :: "Group list"
  GetFileId :: "string \<Rightarrow> u32 option"
  fileIdToGroups :: "u32 \<Rightarrow> u32"
  dataset_cachedFiles :: content_cache

record DLT =
  dlt_id :: u32
  fileNum :: u32
  dataset :: Dataset
  readedFileNum :: u32
  groups :: "DLTGroup list"
  inited :: bool

text \<open>The zero value of \<open>DLTGroup\<close>, as \<open>make([]DLTGroup, n)\<close> fills the slice.\<close>

definition zeroDLTGroup :: DLTGroup where
  "zeroDLTGroup =
     \<lparr>hasWiated = 0,
      group = \<lparr>group_id = 0, group_fileNum = 0, allowCacheSize = 0, cachedSize = 0\<rparr>,
      readedFilesReal = nilBitMap, readedFilesCache = nilBitMap,
      unreadFileNum = 0, unreadFilesIndexs = [], unreadFiles = [],
      readedCachedFileNum = 0, readedCachedFiles = [],
      prereadFileNum = 0,
      cachedFileNum = 0, cacheedFilesCache = [], cachedFiles = []\<rparr>"

text \<open>
  Lines 76-94, the body of the loop of \<open>init\<close> for one group: \<open>make([]uint32, n)\<close> is \<open>n\<close>
  zeros.  The result is \<open>Inl\<close> the error of \<open>NewBitMap\<close> with the group as the early
  return leaves it.
\<close>

definition initGroup :: "(u32 \<Rightarrow> bool) \<Rightarrow> DLTGroup \<Rightarrow> Group \<Rightarrow> (err \<times> DLTGroup) + DLTGroup" where
  "initGroup alloc g0 grp =
     (let g1 = g0\<lparr>group := grp\<rparr> in
      case NewBitMap alloc (group_fileNum grp) of
        Inl er \<Rightarrow> Inl (er, g1\<lparr>readedFilesReal := nilBitMap\<rparr>)
      | Inr b1 \<Rightarrow>
          (let g2 = g1\<lparr>readedFilesReal := b1\<rparr> in
           case NewBitMap alloc (group_fileNum grp) of
             Inl er \<Rightarrow> Inl (er, g2\<lparr>readedFilesCache := nilBitMap\<rparr>)
           | Inr b2 \<Rightarrow>
               (let n = unat (group_fileNum grp) in
                Inr (g2\<lparr>readedFilesCache := b2,
                        unreadFileNum := group_fileNum grp,
                        unreadFilesIndexs := replicate n 0,
                        unreadFiles := replicate n 0,
                        readedCachedFiles := replicate n 0,
                        cacheedFilesCache := replicate n 0,
                        cachedFiles := replicate n 0\<rparr>))))"

text \<open>Lines 69-95, the loop of \<open>init\<close> from index \<open>i\<close> on.\<close>

function init_loop ::
  "(u32 \<Rightarrow> bool) \<Rightarrow> Dataset \<Rightarrow> u32 \<Rightarrow> DLTGroup list \<Rightarrow> panic + (err option \<times> DLTGroup list)" where
  "init_loop alloc ds i gs =
     (if i < groupNum ds then
        pbind (rd gs i) (\<lambda>g0.
        pbind (rd (dataset_groups ds) i) (\<lambda>grp.
        case initGroup alloc g0 grp of
          Inl (er, g1) \<Rightarrow> Inr (Some er, gs[unat i := g1])
        | Inr g1 \<Rightarrow> init_loop alloc ds (i + 1) (gs[unat i := g1])))
      else Inr (None, gs))"
  by pat_completeness auto
termination
proof (relation "measure (\<lambda>(alloc, ds, i, gs). unat (groupNum ds) - unat i)")
  show "wf (measure (\<lambda>(alloc, ds, i, gs). unat (groupNum ds) - unat i))"
    by simp
next
  fix alloc :: "u32 \<Rightarrow> bool" and ds :: Dataset and i :: u32 and gs :: "DLTGroup list"
  assume lt: "i < groupNum ds"
  then have "unat i < unat (groupNum ds)"
    by (simp add: word_less_nat_alt)
  moreover have "unat (groupNum ds) < 2 ^ 32"
    using unsigned_less [of "groupNum ds"] by simp
  ultimately have "unat i + 1 < 2 ^ 32"
    by simp
  then have "unat (i + 1) = unat i + 1"
    by (simp add: unat_word_ariths)
  with \<open>unat i < unat (groupNum ds)\<close>
  show "\<And>x xa xb. ((alloc, ds, i + 1, gs[unat i := xb]), alloc, ds, i, gs)
      \<in> measure (\<lambda>(alloc, ds, i, gs). unat (groupNum ds) - unat i)"
    by simp
qed

declare init_loop.simps [simp del]

text \<open>\<open>init\<close>, lines 63-99.  The result is the returned error and the pass.\<close>

definition init :: "(u32 \<Rightarrow> bool) \<Rightarrow> DLT \<Rightarrow> Dataset \<Rightarrow> panic + (err option \<times> DLT)" where
  "init alloc t ds =
     pbind (init_loop alloc ds 0 (replicate (unat (groupNum ds)) zeroDLTGroup)) (\<lambda>(e, gs).
     case e of
       Some er \<Rightarrow> Inr (Some er, t\<lparr>groups := gs\<rparr>)
     | None \<Rightarrow> Inr (None, t\<lparr>groups := gs, inited := True\<rparr>))"

text \<open>
  \<open>Get\<close>, lines 101-224, run by a single caller with no other thread in between:
  \<open>readFromBackend\<close> is the backend, a parameter.  A caller that reaches \<open>cond.Wait()\<close>
  stays there, since nobody else can signal: the step \<open>Waiting\<close>.
\<close>

definition Get ::
  "(Dataset \<Rightarrow> u32 \<Rightarrow> u32 \<Rightarrow> u32 \<Rightarrow> u32 \<Rightarrow> FileNode option \<times> err option) \<Rightarrow>
     DLT \<Rightarrow> string \<Rightarrow> u32 \<Rightarrow> panic + (get_step \<times> DLT)" where
  "Get readFromBackend t fileName r =
     (if \<not> inited t then Inr (Returned None CODE_DLT_NOT_INIT None, t)
      else case GetFileId (dataset t) fileName of
        None \<Rightarrow> Inr (Returned None CODE_NOT_FOUND None, t)
      | Some fileId \<Rightarrow>
          let groupId = fileIdToGroups (dataset t) fileId in
          pbind (rd (groups t) groupId) (\<lambda>g.
          pbind (Get_locked (dataset_cachedFiles (dataset t)) g fileId r) (\<lambda>(step, g1).
          case step of
            Fetching tempId \<Rightarrow>
              (case readFromBackend (dataset t) (dlt_id t) (dataset_id (dataset t))
                      (group_id (group g1)) tempId of
                 (node, e) \<Rightarrow>
                   pbind (Get_fetched (dataset_cachedFiles (dataset t)) g1 tempId node e)
                     (\<lambda>(res, g2, cache).
                      Inr (res, t\<lparr>groups := (groups t)[unat groupId := g2],
                                  dataset := (dataset t)\<lparr>dataset_cachedFiles := cache\<rparr>\<rparr>)))
          | _ \<Rightarrow> Inr (step, t\<lparr>groups := (groups t)[unat groupId := g1]\<rparr>))))"


section \<open>Callers and producers in any order\<close>

text \<open>
  What can happen to one partition between two moments: any sequence of critical
  sections of this file, each run to its end under the lock.  \<open>CacheStore\<close> is a write to
  the shared content cache by code outside this file.  The step results are dropped;
  a panic ends the run.
\<close>

datatype op =
    CallGet u32 u32
  | FetchReturns u32 "FileNode option" "err option"
  | WaiterWakes u32 u32
  | CallAddUnreadedFile u32
  | CallAddFileToCache FileNode
  | CacheStore u32 "FileNode option"

fun step :: "op \<Rightarrow> DLTGroup \<times> content_cache \<Rightarrow> panic + (DLTGroup \<times> content_cache)" where
  "step (CallGet fileId r) (g, cache) =
     pbind (Get_locked cache g fileId r) (\<lambda>(st, g1). Inr (g1, cache))"
| "step (FetchReturns tempId node e) (g, cache) =
     pbind (Get_fetched cache g tempId node e) (\<lambda>(st, g1, cache1). Inr (g1, cache1))"
| "step (WaiterWakes fileId r) (g, cache) =
     pbind (Get_woken cache g fileId r) (\<lambda>(st, g1). Inr (g1, cache))"
| "step (CallAddUnreadedFile fileId) (g, cache) =
     pbind (addUnreadedFile g fileId) (\<lambda>g1. Inr (g1, cache))"
| "step (CallAddFileToCache node) (g, cache) =
     pbind (addFileToCache g node) (\<lambda>(g1, out). Inr (g1, cache))"
| "step (CacheStore i node) (g, cache) = Inr (g, cache(i := node))"

fun run :: "op list \<Rightarrow> DLTGroup \<times> content_cache \<Rightarrow> panic + (DLTGroup \<times> content_cache)" where
  "run [] s = Inr s"
| "run (x # xs) s = pbind (step x s) (run xs)"

section \<open>Example partitions\<close>

text \<open>
  \<open>fresh2\<close> and \<open>fresh3\<close> are the groups that \<open>init\<close> leaves for a partition of two and of
  three files whose budget is \<open>cachedSize = allowCacheSize = 0\<close>.
\<close>

definition fresh2 :: DLTGroup where
  "fresh2 =
     \<lparr>hasWiated = 0,
      group = \<lparr>group_id = 0, group_fileNum = 2, allowCacheSize = 0, cachedSize = 0\<rparr>,
      readedFilesReal = \<lparr>capacity = 2, bits = (\<lambda>_. False)\<rparr>,
      readedFilesCache = \<lparr>capacity = 2, bits = (\<lambda>_. False)\<rparr>,
      unreadFileNum = 2, unreadFilesIndexs = [0, 0], unreadFiles = [0, 0],
      readedCachedFileNum = 0, readedCachedFiles = [0, 0],
      prereadFileNum = 0,
      cachedFileNum = 0, cacheedFilesCache = [0, 0], cachedFiles = [0, 0]\<rparr>"

definition fresh3 :: DLTGroup where
  "fresh3 =
     \<lparr>hasWiated = 0,
      group = \<lparr>group_id = 0, group_fileNum = 3, allowCacheSize = 0, cachedSize = 0\<rparr>,
      readedFilesReal = \<lparr>capacity = 3, bits = (\<lambda>_. False)\<rparr>,
      readedFilesCache = \<lparr>capacity = 3, bits = (\<lambda>_. False)\<rparr>,
      unreadFileNum = 3, unreadFilesIndexs = [0, 0, 0], unreadFiles = [0, 0, 0],
      readedCachedFileNum = 0, readedCachedFiles = [0, 0, 0],
      prereadFileNum = 0,
      cachedFileNum = 0, cacheedFilesCache = [0, 0, 0], cachedFiles = [0, 0, 0]\<rparr>"

text \<open>The content of file \<open>i\<close>, and a content cache that holds exactly the files \<open>is\<close>.\<close>

definition fileContent :: "u32 \<Rightarrow> FileNode" where
  "fileContent i =
     \<lparr>node_fileId = i, content = (if i = 0 then ''X'' else if i = 1 then ''Y'' else ''Z'')\<rparr>"

definition cacheOf :: "u32 list \<Rightarrow> content_cache" where
  "cacheOf is = (\<lambda>i. if i \<in> set is then Some (fileContent i) else None)"

section \<open>Auxiliary predicates\<close>

text \<open>Every bit of the two bit-indexed sets of \<open>g\<close> is still set in \<open>g'\<close>.\<close>

definition marked :: "DLTGroup \<Rightarrow> DLTGroup \<Rightarrow> bool" where
  "marked g g' \<longleftrightarrow>
     (\<forall>j. BitMap_Get (readedFilesReal g) j \<longrightarrow> BitMap_Get (readedFilesReal g') j) \<and>
     (\<forall>j. BitMap_Get (readedFilesCache g) j \<longrightarrow> BitMap_Get (readedFilesCache g') j)"


text \<open>
  The ids that a pool holds: the slots below its count, which is where
  \<open>getRandomCachedFile\<close> and \<open>getRandomUnreadedFile\<close> draw from.
\<close>

definition cachedIds :: "DLTGroup \<Rightarrow> u32 list" where
  "cachedIds g = take (unat (cachedFileNum g)) (cachedFiles g)"

definition unreadIds :: "DLTGroup \<Rightarrow> u32 list" where
  "unreadIds g = take (unat (unreadFileNum g)) (unreadFiles g)"

text \<open>
  The source's own membership tests: an id is in the unread list when its entry in
  \<open>unreadFilesIndexs\<close> is not 0 (lines 309-310 and 346-347), and in the cached list when
  its entry in \<open>cacheedFilesCache\<close> is not 0 (lines 239, 318 and 354).
\<close>

definition inUnreadList :: "DLTGroup \<Rightarrow> u32 \<Rightarrow> bool" where
  "inUnreadList g fileId \<longleftrightarrow>
     unat fileId < length (unreadFilesIndexs g) \<and> unreadFilesIndexs g ! unat fileId \<noteq> 0"

definition inCachedList :: "DLTGroup \<Rightarrow> u32 \<Rightarrow> bool" where
  "inCachedList g fileId \<longleftrightarrow>
     unat fileId < length (cacheedFilesCache g) \<and> cacheedFilesCache g ! unat fileId \<noteq> 0"

text \<open>
  Partitions of two files in other states.  In \<open>unread2\<close> file 0 is the one unread file
  and a caller is waiting; in \<open>cached2\<close> file 0 is the one cached file, one file is in
  flight and a caller is waiting; in \<open>waiting2\<close> nothing is unread or cached and one file
  is in flight; in \<open>drained2\<close> nothing is unread, cached or in flight.
\<close>

definition unread2 :: DLTGroup where
  "unread2 = fresh2\<lparr>hasWiated := 1, unreadFileNum := 1, unreadFilesIndexs := [1, 0]\<rparr>"

definition cached2 :: DLTGroup where
  "cached2 = fresh2\<lparr>hasWiated := 1, unreadFileNum := 0, prereadFileNum := 1,
                     cachedFileNum := 1, cacheedFilesCache := [1, 0]\<rparr>"

definition waiting2 :: DLTGroup where
  "waiting2 = fresh2\<lparr>unreadFileNum := 0, prereadFileNum := 1\<rparr>"

definition drained2 :: DLTGroup where
  "drained2 = fresh2\<lparr>unreadFileNum := 0\<rparr>"

text \<open>A dataset of one partition with the two files \<open>''1''\<close> and \<open>''2''\<close>, and a pass on it.\<close>

definition dataset2 :: Dataset where
  "dataset2 =
     \<lparr>dataset_id = 0, groupNum = 1,
      dataset_groups = [\<lparr>group_id = 0, group_fileNum = 2, allowCacheSize = 0, cachedSize = 0\<rparr>],
      GetFileId = (\<lambda>name. if name = ''1'' then Some 0 else if name = ''2'' then Some 1 else None),
      fileIdToGroups = (\<lambda>_. 0),
      dataset_cachedFiles = (\<lambda>_. None)\<rparr>"

definition pass2 :: DLT where
  "pass2 = \<lparr>dlt_id = 0, fileNum = 2, dataset = dataset2, readedFileNum = 0, groups = [],
            inited = False\<rparr>"

text \<open>
  \<open>served3\<close> is \<open>fresh3\<close> after its three files have been requested and fetched
  directly, each fetch admitted to the content cache.
\<close>

definition served3 :: DLTGroup where
  "served3 =
     fresh3\<lparr>readedFilesReal :=
              \<lparr>capacity = 3, bits = (\<lambda>_. False)(0 := True, 1 := True, 2 := True)\<rparr>,
            readedFilesCache :=
              \<lparr>capacity = 3, bits = (\<lambda>_. False)(0 := True, 1 := True, 2 := True)\<rparr>,
            readedCachedFiles := [0, 1, 2], readedCachedFileNum := 3\<rparr>"


section \<open>Basic facts\<close>

lemma pbind_Inl [simp]: "pbind (Inl p) f = Inl p"
  by (simp add: pbind_def)

lemma pbind_Inr [simp]: "pbind (Inr v) f = f v"
  by (simp add: pbind_def)

lemma pbind_eq_Inr: "pbind m f = Inr y \<longleftrightarrow> (\<exists>v. m = Inr v \<and> f v = Inr y)"
  by (cases m) simp_all

lemma replicate_2: "replicate 2 x = [x, x]"
  by (simp add: numeral_2_eq_2)

lemma replicate_3: "replicate 3 x = [x, x, x]"
  by (simp add: numeral_3_eq_3)

subsection \<open>The bit-indexed sets only grow\<close>

lemma BitMap_Get_Set: "BitMap_Get (BitMap_Set b i) j \<longleftrightarrow> j = i \<or> BitMap_Get b j"
  by (simp add: BitMap_Get_def BitMap_Set_def)

lemma markReaded_bits:
  "BitMap_Get (readedFilesReal (markReaded g tempId fileId)) j \<longleftrightarrow>
     j = fileId \<or> BitMap_Get (readedFilesReal g) j"
  "BitMap_Get (readedFilesCache (markReaded g tempId fileId)) j \<longleftrightarrow>
     j = tempId \<or> BitMap_Get (readedFilesCache g) j"
  by (simp_all add: markReaded_def BitMap_Get_Set)

lemma markCachedFileReaded_bitmaps:
  "markCachedFileReaded g fileId index = Inr g' \<Longrightarrow>
     readedFilesReal g' = readedFilesReal g \<and> readedFilesCache g' = readedFilesCache g"
  by (auto simp: markCachedFileReaded_def pbind_eq_Inr rd_def wr_def Let_def split: if_splits)

lemma getRandomCachedFile_bitmaps:
  "getRandomCachedFile g r = Inr (tempId, ok, g') \<Longrightarrow>
     readedFilesReal g' = readedFilesReal g \<and> readedFilesCache g' = readedFilesCache g"
  by (auto simp: getRandomCachedFile_def pbind_eq_Inr Let_def
           dest: markCachedFileReaded_bitmaps split: if_splits)

lemma getFileFromCache_bitmaps:
  "getFileFromCache cache fileId g r = Inr (res, g') \<Longrightarrow>
     readedFilesReal g' = readedFilesReal g \<and> readedFilesCache g' = readedFilesCache g"
  by (auto simp: getFileFromCache_def pbind_eq_Inr
           dest: markCachedFileReaded_bitmaps getRandomCachedFile_bitmaps
           split: if_splits option.splits)

lemma getRandomUnreadedFile_bitmaps:
  "getRandomUnreadedFile g r = Inr (tempId, ok, g') \<Longrightarrow>
     readedFilesReal g' = readedFilesReal g \<and> readedFilesCache g' = readedFilesCache g"
  by (auto simp: getRandomUnreadedFile_def pbind_eq_Inr rd_def wr_def Let_def split: if_splits)

lemma removeFromUnread_bitmaps:
  "removeFromUnread g tempId = Inr g' \<Longrightarrow>
     readedFilesReal g' = readedFilesReal g \<and> readedFilesCache g' = readedFilesCache g"
  by (auto simp: removeFromUnread_def pbind_eq_Inr rd_def wr_def Let_def split: if_splits)

lemma addUnreadedFile_bitmaps:
  "addUnreadedFile g fileId = Inr g' \<Longrightarrow>
     readedFilesReal g' = readedFilesReal g \<and> readedFilesCache g' = readedFilesCache g"
  by (auto simp: addUnreadedFile_def pbind_eq_Inr rd_def wr_def Let_def split: if_splits)

lemma addFileToCache_bitmaps:
  "addFileToCache g node = Inr (g', out) \<Longrightarrow>
     readedFilesReal g' = readedFilesReal g \<and> readedFilesCache g' = readedFilesCache g"
  by (auto simp: addFileToCache_def pbind_eq_Inr rd_def wr_def Let_def split: if_splits)

lemma Get_locked_marked:
  "Get_locked cache g fileId r = Inr (st, g') \<Longrightarrow> marked g g'"
  unfolding marked_def
  by (auto simp: Get_locked_def pbind_eq_Inr markReaded_bits
           dest!: getFileFromCache_bitmaps getRandomUnreadedFile_bitmaps removeFromUnread_bitmaps
           split: if_splits option.splits)

lemma Get_woken_marked:
  "Get_woken cache g fileId r = Inr (st, g') \<Longrightarrow> marked g g'"
  unfolding marked_def
  by (auto simp: Get_woken_def pbind_eq_Inr markReaded_bits
           dest!: getFileFromCache_bitmaps
           split: if_splits option.splits)

lemma Get_fetched_marked:
  "Get_fetched cache g tempId node e = Inr (st, g', cache') \<Longrightarrow> marked g g'"
  unfolding marked_def
  by (auto simp: Get_fetched_def pbind_eq_Inr wr_def split: if_splits option.splits)

lemma step_marked: "step x (g, cache) = Inr (g', cache') \<Longrightarrow> marked g g'"
proof (cases x)
  case (CallGet fileId r)
  then show "step x (g, cache) = Inr (g', cache') \<Longrightarrow> marked g g'"
    by (auto simp: pbind_eq_Inr dest: Get_locked_marked)
next
  case (FetchReturns tempId node e)
  then show "step x (g, cache) = Inr (g', cache') \<Longrightarrow> marked g g'"
    by (auto simp: pbind_eq_Inr dest: Get_fetched_marked)
next
  case (WaiterWakes fileId r)
  then show "step x (g, cache) = Inr (g', cache') \<Longrightarrow> marked g g'"
    by (auto simp: pbind_eq_Inr dest: Get_woken_marked)
next
  case (CallAddUnreadedFile fileId)
  then show "step x (g, cache) = Inr (g', cache') \<Longrightarrow> marked g g'"
    by (auto simp: pbind_eq_Inr marked_def dest: addUnreadedFile_bitmaps)
next
  case (CallAddFileToCache node)
  then show "step x (g, cache) = Inr (g', cache') \<Longrightarrow> marked g g'"
    by (auto simp: pbind_eq_Inr marked_def dest: addFileToCache_bitmaps)
next
  case (CacheStore i node)
  then show "step x (g, cache) = Inr (g', cache') \<Longrightarrow> marked g g'"
    by (auto simp: marked_def)
qed

lemma run_marked: "run xs (g, cache) = Inr (g', cache') \<Longrightarrow> marked g g'"
proof (induction xs arbitrary: g cache)
  case Nil
  then show ?case by (simp add: marked_def)
next
  case (Cons x xs)
  from Cons.prems obtain g1 cache1
    where s: "step x (g, cache) = Inr (g1, cache1)"
      and r: "run xs (g1, cache1) = Inr (g', cache')"
    by (auto simp: pbind_eq_Inr)
  from step_marked [OF s] Cons.IH [OF r] show ?case
    by (simp add: marked_def)
qed

text \<open>
  C1.  Once the delivered-as-requested bit (\<open>readedFilesReal\<close>) of a file id is set,
  then after any sequence of gets, fetch returns, wake-ups and producer calls on the
  partition, a get for the same id fails with the error of line 132 (\<open>AlreadyRequested\<close>),
  returns no content and leaves the partition as it was: the test comes first, under the
  lock, before any change.
\<close>

theorem Get_again_ReadAgain:
  assumes "BitMap_Get (readedFilesReal g) fileId"
    and "run xs (g, cache) = Inr (g', cache')"
  shows "Get_locked cache' g' fileId r =
           Inr (Returned None CODE_EMPTY (Some (ReadAgain fileId)), g')"
proof -
  from run_marked [OF assms(2)] assms(1)
  have "BitMap_Get (readedFilesReal g') fileId"
    by (simp add: marked_def)
  then show ?thesis
    by (simp add: Get_locked_def)
qed

lemma Get_locked_fresh2:
  "Get_locked cache fresh2 1 r = Inr (Fetching 1, markReaded fresh2 1 1)"
  by (simp add: Get_locked_def fresh2_def BitMap_Get_def removeFromUnread_def rd_def markReaded_def)

text \<open>
  Witness for C1: a get for file 1 on a fresh partition of two files sets the bit; the
  fetch returns, file 0 lands in the cache and is read; a second get for file 1 fails.
\<close>

theorem Get_again_ReadAgain_witness:
  "Get_locked (cacheOf []) fresh2 1 5 = Inr (Fetching 1, markReaded fresh2 1 1) \<and>
   BitMap_Get (readedFilesReal (markReaded fresh2 1 1)) 1 \<and>
   (case run [FetchReturns 1 (Some (fileContent 1)) None, CallAddFileToCache (fileContent 0),
              CallGet 0 7] (markReaded fresh2 1 1, cacheOf []) of
      Inl p \<Rightarrow> False
    | Inr (g', cache') \<Rightarrow>
        Get_locked cache' g' 1 9 = Inr (Returned None CODE_EMPTY (Some (ReadAgain 1)), g'))"
proof -
  have bit: "BitMap_Get (readedFilesReal (markReaded fresh2 1 1)) 1"
    by (simp add: markReaded_bits)
  have "\<exists>s. run [FetchReturns 1 (Some (fileContent 1)) None, CallAddFileToCache (fileContent 0),
              CallGet 0 7] (markReaded fresh2 1 1, cacheOf []) = Inr s"
    by (simp add: Get_fetched_def Get_locked_def addFileToCache_def getFileFromCache_def
          getRandomCachedFile_def markCachedFileReaded_def markReaded_def fresh2_def
          BitMap_Get_def BitMap_Set_def rd_def wr_def cacheOf_def fileContent_def Let_def)
  then obtain g' cache' where
    r: "run [FetchReturns 1 (Some (fileContent 1)) None, CallAddFileToCache (fileContent 0),
              CallGet 0 7] (markReaded fresh2 1 1, cacheOf []) = Inr (g', cache')"
    by auto
  from Get_again_ReadAgain [OF bit r, of 9] r bit Get_locked_fresh2 show ?thesis
    by simp
qed

subsection \<open>The entry of \<open>Get\<close>\<close>

text \<open>
  Lines 107-115 and 131-133 at the level of the pass: a pass that is not initialised, a
  name the catalog does not know, and a file that has been requested already.  None of
  them changes the pass.
\<close>

lemma Get_not_inited:
  "\<not> inited t \<Longrightarrow> Get readFromBackend t fileName r = Inr (Returned None CODE_DLT_NOT_INIT None, t)"
  by (simp add: Get_def)

lemma Get_not_found:
  "inited t \<Longrightarrow> GetFileId (dataset t) fileName = None \<Longrightarrow>
     Get readFromBackend t fileName r = Inr (Returned None CODE_NOT_FOUND None, t)"
  by (simp add: Get_def)

lemma Get_requested_again:
  assumes "inited t" and "GetFileId (dataset t) fileName = Some fileId"
    and "rd (groups t) (fileIdToGroups (dataset t) fileId) = Inr g"
    and "BitMap_Get (readedFilesReal g) fileId"
  shows "Get readFromBackend t fileName r =
           Inr (Returned None CODE_EMPTY (Some (ReadAgain fileId)), t)"
proof -
  from assms(3) have "(groups t)[unat (fileIdToGroups (dataset t) fileId) := g] = groups t"
    by (auto simp: rd_def split: if_splits)
  with assms show ?thesis
    by (simp add: Get_def Get_locked_def Let_def)
qed

subsection \<open>The group that \<open>init\<close> leaves\<close>

lemma initGroup_Inr:
  assumes "initGroup alloc g grp = Inr g'"
  shows "g' = g\<lparr>group := grp,
                 readedFilesReal := \<lparr>capacity = group_fileNum grp, bits = (\<lambda>_. False)\<rparr>,
                 readedFilesCache := \<lparr>capacity = group_fileNum grp, bits = (\<lambda>_. False)\<rparr>,
                 unreadFileNum := group_fileNum grp,
                 unreadFilesIndexs := replicate (unat (group_fileNum grp)) 0,
                 unreadFiles := replicate (unat (group_fileNum grp)) 0,
                 readedCachedFiles := replicate (unat (group_fileNum grp)) 0,
                 cacheedFilesCache := replicate (unat (group_fileNum grp)) 0,
                 cachedFiles := replicate (unat (group_fileNum grp)) 0\<rparr>"
  using assms
  by (auto simp: initGroup_def NewBitMap_def Let_def split: if_splits)

lemma u32_less_2: "unat (a :: u32) < 2 \<Longrightarrow> a = 0 \<or> a = 1"
proof -
  assume "unat a < 2"
  then have "unat a = 0 \<or> unat a = 1"
    by arith
  then show ?thesis
    by (auto simp: word_unat_eq_iff)
qed

lemma fresh2_init:
  "initGroup (\<lambda>_. True) zeroDLTGroup
     \<lparr>group_id = 0, group_fileNum = 2, allowCacheSize = 0, cachedSize = 0\<rparr> = Inr fresh2"
  by (simp add: initGroup_def NewBitMap_def zeroDLTGroup_def fresh2_def Let_def replicate_2)

lemmas eval_defs =
  Get_locked_def Get_fetched_def Get_woken_def getFileFromCache_def getRandomCachedFile_def
  markCachedFileReaded_def getRandomUnreadedFile_def removeFromUnread_def markReaded_def
  addUnreadedFile_def addFileToCache_def BitMap_Get_def BitMap_Set_def rd_def wr_def Let_def

text \<open>
  C2.  A partition of two files, with ids \<open>a\<close> and \<open>b\<close>, as \<open>init\<close> leaves it.  The
  producer lands \<open>a\<close>, whose content \<open>X\<close> is in the content cache, before any get.  A get
  for \<open>b\<close>, which is not cached, is then served from the cached pool by substitution: it
  returns \<open>X\<close>, sets the delivered-as-requested bit of \<open>b\<close> and the consumed-from-pool bit
  of \<open>a\<close>, and takes \<open>a\<close> out of the pool.  The ids of a partition of two files are the
  indices 0 and 1 of its slices; the scenario's files 1 and 2 are these two, in either
  order.
\<close>

theorem substitution_from_cache:
  assumes fresh: "initGroup alloc zeroDLTGroup grp = Inr g0"
    and two: "group_fileNum grp = 2"
    and a: "unat a < 2" and b: "unat b < 2" and ab: "a \<noteq> b"
    and X: "node_fileId X = a" "cache a = Some X"
  shows "\<exists>g1 out g2.
           addFileToCache g0 X = Inr (g1, out) \<and> cachedIds g1 = [a] \<and>
           Get_locked cache g1 b r = Inr (Returned (Some X) CODE_OK None, g2) \<and>
           BitMap_Get (readedFilesReal g2) b \<and> BitMap_Get (readedFilesCache g2) a \<and>
           cachedIds g2 = []"
proof -
  note g0 = initGroup_Inr [OF fresh, unfolded two]
  from a b ab consider "a = 0" "b = 1" | "a = 1" "b = 0"
    using u32_less_2 by blast
  then show ?thesis
  proof cases
    case 1
    with X show ?thesis
      by (simp add: g0 zeroDLTGroup_def nilBitMap_def replicate_2 cachedIds_def eval_defs)
  next
    case 2
    with X show ?thesis
      by (simp add: g0 zeroDLTGroup_def nilBitMap_def replicate_2 cachedIds_def eval_defs)
  qed
qed

text \<open>
  Witness for C2: file 0 lands, file 1 is requested.
\<close>

theorem substitution_from_cache_witness:
  "\<exists>g1 out g2.
     addFileToCache fresh2 (fileContent 0) = Inr (g1, out) \<and> cachedIds g1 = [0] \<and>
     Get_locked (cacheOf [0]) g1 1 7 = Inr (Returned (Some (fileContent 0)) CODE_OK None, g2) \<and>
     BitMap_Get (readedFilesReal g2) 1 \<and> BitMap_Get (readedFilesCache g2) 0 \<and>
     cachedIds g2 = []"
  using substitution_from_cache [OF fresh2_init, of 0 1 "fileContent 0" "cacheOf [0]" 7]
  by (simp add: fileContent_def cacheOf_def)

subsection \<open>\<open>init\<close>\<close>


lemma unat_Suc_less:
  fixes i n :: u32
  assumes "i < n"
  shows "unat (i + 1) = unat i + 1"
proof -
  from assms have "unat i < unat n"
    by (simp add: word_less_nat_alt)
  moreover have "unat n < 2 ^ 32"
    using unsigned_less [of n] by simp
  ultimately have "unat i + 1 < 2 ^ 32"
    by simp
  then show ?thesis
    by (simp add: unat_word_ariths)
qed

lemma init_loop_groups:
  "init_loop alloc ds i gs = Inr (None, gs') \<Longrightarrow>
     length gs' = length gs \<and>
     (\<forall>k. unat i \<le> k \<and> k < unat (groupNum ds) \<longrightarrow>
          k < length gs \<and> k < length (dataset_groups ds) \<and>
          initGroup alloc (gs ! k) (dataset_groups ds ! k) = Inr (gs' ! k)) \<and>
     (\<forall>k < unat i. gs' ! k = gs ! k)"
proof (induction alloc ds i gs arbitrary: gs' rule: init_loop.induct)
  case (1 alloc ds i gs)
  show ?case
  proof (cases "i < groupNum ds")
    case False
    then have "unat (groupNum ds) \<le> unat i"
      by (simp add: word_less_nat_alt)
    moreover from False "1.prems" have "gs' = gs"
      by (simp add: init_loop.simps [of alloc ds i gs])
    ultimately show ?thesis
      by auto
  next
    case True
    note suc = unat_Suc_less [OF True]
    from True "1.prems" obtain g0 grp
      where g0: "rd gs i = Inr g0" and grp: "rd (dataset_groups ds) i = Inr grp"
        and body: "(case initGroup alloc g0 grp of
                      Inl (er, g1) \<Rightarrow> Inr (Some er, gs[unat i := g1])
                    | Inr g1 \<Rightarrow> init_loop alloc ds (i + 1) (gs[unat i := g1])) =
                   Inr (None, gs')"
      by (auto simp: init_loop.simps [of alloc ds i gs] pbind_eq_Inr)
    from body obtain g1
      where ig: "initGroup alloc g0 grp = Inr g1"
        and rec: "init_loop alloc ds (i + 1) (gs[unat i := g1]) = Inr (None, gs')"
      by (cases "initGroup alloc g0 grp") auto
    from g0 have i_gs: "unat i < length gs" and g0_eq: "g0 = gs ! unat i"
      by (auto simp: rd_def split: if_splits)
    from grp have i_ds: "unat i < length (dataset_groups ds)"
      and grp_eq: "grp = dataset_groups ds ! unat i"
      by (auto simp: rd_def split: if_splits)
    note IH = "1.IH" [OF True ig rec, unfolded suc]
    from IH have len: "length gs' = length gs"
      by simp
    from IH i_gs have at_i: "gs' ! unat i = g1"
      by simp
    have later: "k < length gs \<and> k < length (dataset_groups ds) \<and>
        initGroup alloc (gs ! k) (dataset_groups ds ! k) = Inr (gs' ! k)"
      if "unat i \<le> k" "k < unat (groupNum ds)" for k
    proof (cases "k = unat i")
      case True
      with i_gs i_ds ig g0_eq grp_eq at_i show ?thesis
        by simp
    next
      case False
      with that have "unat i + 1 \<le> k"
        by simp
      with IH that False show ?thesis
        by auto
    qed
    have earlier: "gs' ! k = gs ! k" if "k < unat i" for k
      using IH that by auto
    from len later earlier show ?thesis
      by blast
  qed
qed

text \<open>
  C3.  After \<open>init\<close> succeeds, every partition has empty bit-indexed sets and an unread
  count equal to its file count, as the claim says.  The claim also says that every id is
  then a member of the unread pool.  That is not what \<open>init\<close> does: it allocates the slots
  and the position entries of the pool and leaves them all zero.
\<close>

theorem init_leaves_pools_zeroed:
  assumes "init alloc t ds = Inr (None, t')"
    and "k < unat (groupNum ds)"
  shows "inited t' \<and> k < length (groups t') \<and> k < length (dataset_groups ds) \<and>
         (\<forall>j. \<not> BitMap_Get (readedFilesReal (groups t' ! k)) j) \<and>
         (\<forall>j. \<not> BitMap_Get (readedFilesCache (groups t' ! k)) j) \<and>
         unreadFileNum (groups t' ! k) = group_fileNum (dataset_groups ds ! k) \<and>
         unreadFiles (groups t' ! k) =
           replicate (unat (group_fileNum (dataset_groups ds ! k))) 0 \<and>
         unreadFilesIndexs (groups t' ! k) =
           replicate (unat (group_fileNum (dataset_groups ds ! k))) 0"
proof -
  from assms(1) obtain gs
    where loop: "init_loop alloc ds 0 (replicate (unat (groupNum ds)) zeroDLTGroup) = Inr (None, gs)"
      and t': "t' = t\<lparr>groups := gs, inited := True\<rparr>"
    by (auto simp: init_def pbind_eq_Inr split: option.splits)
  from init_loop_groups [OF loop] assms(2)
  have len: "length gs = unat (groupNum ds)"
    and kd: "k < length (dataset_groups ds)"
    and ig: "initGroup alloc zeroDLTGroup (dataset_groups ds ! k) = Inr (gs ! k)"
    by auto
  note g = initGroup_Inr [OF ig]
  from len kd assms(2) show ?thesis
    by (simp add: t' g BitMap_Get_def)
qed

text \<open>
  Witness for C3, the failing input: a dataset of one partition with two files.  The two
  slots of the unread pool both hold id 0, so file 1 is in none, and neither file passes
  the membership test of the source.
\<close>

theorem init_leaves_pools_zeroed_witness:
  "init (\<lambda>_. True) pass2 dataset2 = Inr (None, pass2\<lparr>groups := [fresh2], inited := True\<rparr>) \<and>
   unreadFileNum fresh2 = 2 \<and> unreadIds fresh2 = [0, 0] \<and> 1 \<notin> set (unreadIds fresh2) \<and>
   \<not> inUnreadList fresh2 0 \<and> \<not> inUnreadList fresh2 1"
proof -
  have e: "init (\<lambda>_. True) pass2 dataset2 = Inr (None, pass2\<lparr>groups := [fresh2], inited := True\<rparr>)"
    by (simp add: init_def init_loop.simps dataset2_def rd_def fresh2_init)
  have k: "0 < unat (groupNum dataset2)"
    by (simp add: dataset2_def)
  from init_leaves_pools_zeroed [OF e k]
  have "unreadFileNum fresh2 = 2 \<and> unreadFiles fresh2 = [0, 0] \<and> unreadFilesIndexs fresh2 = [0, 0]"
    by (simp add: dataset2_def replicate_2)
  with e show ?thesis
    by (simp add: unreadIds_def inUnreadList_def)
qed

subsection \<open>\<open>addFileToCache\<close>\<close>

lemma take_Suc_update:
  "n < length xs \<Longrightarrow> take (Suc n) (xs[n := v]) = take n xs @ [v]"
  by (simp add: take_Suc_conv_app_nth)

lemma unat_Suc_room:
  fixes n :: u32
  assumes "unat n < m" and "m < 2 ^ 32"
  shows "unat (n + 1) = Suc (unat n)" and "n + 1 \<noteq> 0"
proof -
  from assms have "unat n + 1 < 2 ^ 32"
    by simp
  then show "unat (n + 1) = Suc (unat n)"
    by (simp add: unat_word_ariths)
  then show "n + 1 \<noteq> 0"
    by (metis Zero_not_Suc unat_0)
qed

text \<open>
  C4, as amended.  \<open>land_in_cache\<close> (\<open>addFileToCache\<close>) for an id not yet
  consumed-from-pool.  If the id is in the unread list, it is removed from there: its
  position entry is cleared and the unread count decremented; the in-flight counter stays.
  Otherwise, if the id is not in the cached list, the in-flight counter is decremented, the
  id is appended to the cache-available pool, and a waiter is signalled exactly when a
  caller is waiting.  Otherwise the id is cached already: nothing changes and a warning is
  printed.
\<close>

theorem addFileToCache_not_consumed:
  assumes fresh: "\<not> BitMap_Get (readedFilesCache g) (node_fileId node)"
    and len: "length (cachedFiles g) < 2 ^ 32"
    and call: "addFileToCache g node = Inr (g', out)"
  shows "if inUnreadList g (node_fileId node) then
           \<not> inUnreadList g' (node_fileId node) \<and> unreadFileNum g' = unreadFileNum g - 1 \<and>
           prereadFileNum g' = prereadFileNum g
         else if \<not> inCachedList g (node_fileId node) then
           prereadFileNum g' = prereadFileNum g - 1 \<and>
           inCachedList g' (node_fileId node) \<and>
           cachedIds g' = cachedIds g @ [node_fileId node] \<and>
           unreadFileNum g' = unreadFileNum g \<and> unreadFilesIndexs g' = unreadFilesIndexs g \<and>
           unreadFiles g' = unreadFiles g \<and>
           out = (if 0 < sint (hasWiated g) then [Signal] else [])
         else g' = g \<and> out = [WarnHasBeenCached (node_fileId node)]"
proof (cases "inUnreadList g (node_fileId node)")
  case True
  with fresh call show ?thesis
    by (auto simp: addFileToCache_def inUnreadList_def pbind_eq_Inr rd_def wr_def Let_def
             split: if_splits)
next
  case False
  note nu = this
  show ?thesis
  proof (cases "inCachedList g (node_fileId node)")
    case True
    with nu fresh call show ?thesis
      by (auto simp: addFileToCache_def inUnreadList_def inCachedList_def pbind_eq_Inr rd_def
            wr_def Let_def split: if_splits)
  next
    case False
    with nu fresh call
    have room: "unat (cachedFileNum g) < length (cachedFiles g)"
      and inr: "unat (node_fileId node) < length (cacheedFilesCache g)"
      and g': "g' = g\<lparr>prereadFileNum := prereadFileNum g - 1,
                       cachedFiles := (cachedFiles g)[unat (cachedFileNum g) := node_fileId node],
                       cachedFileNum := cachedFileNum g + 1,
                       cacheedFilesCache :=
                         (cacheedFilesCache g)[unat (node_fileId node) := cachedFileNum g + 1]\<rparr>"
      and out: "out = (if 0 < sint (hasWiated g) then [Signal] else [])"
      by (auto simp: addFileToCache_def inUnreadList_def inCachedList_def pbind_eq_Inr rd_def
            wr_def Let_def split: if_splits)
    note suc = unat_Suc_room [OF room len]
    from nu False room inr suc show ?thesis
      by (simp add: g' out inCachedList_def cachedIds_def take_Suc_update)
  qed
qed

lemma unread2_call:
  "addFileToCache unread2 (fileContent 0) =
     Inr (unread2\<lparr>unreadFileNum := 0, unreadFilesIndexs := [0, 0]\<rparr>, [])"
  by (simp add: unread2_def fresh2_def fileContent_def eval_defs)

lemma cached2_call:
  "addFileToCache cached2 (fileContent 0) = Inr (cached2, [WarnHasBeenCached 0])"
  by (simp add: cached2_def fresh2_def fileContent_def eval_defs)

lemma waiting2_call:
  "addFileToCache (waiting2\<lparr>hasWiated := 1\<rparr>) (fileContent 1) =
     Inr (waiting2\<lparr>hasWiated := 1, prereadFileNum := 0, cachedFiles := [1, 0],
                    cachedFileNum := 1, cacheedFilesCache := [0, 1]\<rparr>, [Signal])"
  by (simp add: waiting2_def fresh2_def fileContent_def eval_defs)

text \<open>
  Witness for C4: one call for each of the three cases.
\<close>

theorem addFileToCache_not_consumed_witness:
  "\<not> inUnreadList (unread2\<lparr>unreadFileNum := 0, unreadFilesIndexs := [0, 0]\<rparr>) 0 \<and>
   unreadFileNum (unread2\<lparr>unreadFileNum := 0, unreadFilesIndexs := [0, 0]\<rparr>) = unreadFileNum unread2 - 1 \<and>
   addFileToCache (waiting2\<lparr>hasWiated := 1\<rparr>) (fileContent 1) =
     Inr (waiting2\<lparr>hasWiated := 1, prereadFileNum := 0, cachedFiles := [1, 0],
                    cachedFileNum := 1, cacheedFilesCache := [0, 1]\<rparr>, [Signal]) \<and>
   cachedIds (waiting2\<lparr>hasWiated := 1\<rparr>) = [] \<and>
   cachedIds (waiting2\<lparr>hasWiated := 1, prereadFileNum := 0, cachedFiles := [1, 0],
                    cachedFileNum := 1, cacheedFilesCache := [0, 1]\<rparr>) = [1] \<and>
   addFileToCache cached2 (fileContent 0) = Inr (cached2, [WarnHasBeenCached 0])"
proof -
  have a: "\<not> BitMap_Get (readedFilesCache unread2) (node_fileId (fileContent 0))"
    "length (cachedFiles unread2) < 2 ^ 32" "inUnreadList unread2 (node_fileId (fileContent 0))"
    by (simp_all add: unread2_def fresh2_def fileContent_def BitMap_Get_def inUnreadList_def)
  have b: "\<not> BitMap_Get (readedFilesCache (waiting2\<lparr>hasWiated := 1\<rparr>)) (node_fileId (fileContent 1))"
    "length (cachedFiles (waiting2\<lparr>hasWiated := 1\<rparr>)) < 2 ^ 32"
    "\<not> inUnreadList (waiting2\<lparr>hasWiated := 1\<rparr>) (node_fileId (fileContent 1))"
    "\<not> inCachedList (waiting2\<lparr>hasWiated := 1\<rparr>) (node_fileId (fileContent 1))"
    "cachedIds (waiting2\<lparr>hasWiated := 1\<rparr>) = []"
    by (simp_all add: waiting2_def fresh2_def fileContent_def BitMap_Get_def inUnreadList_def
          inCachedList_def cachedIds_def)
  from addFileToCache_not_consumed [OF a(1,2) unread2_call] a(3)
    addFileToCache_not_consumed [OF b(1,2) waiting2_call] b(3,4,5)
    waiting2_call cached2_call
  show ?thesis
    by (simp add: fileContent_def)
qed

lemma unread2_reached:
  "run [CallGet 1 5, CallAddUnreadedFile 0] (waiting2, cacheOf []) = Inr (unread2, cacheOf [])"
  by (simp add: waiting2_def unread2_def fresh2_def eval_defs)

lemma cached2_reached:
  "run [CallGet 1 5, CallAddFileToCache (fileContent 0)]
     (waiting2\<lparr>prereadFileNum := 2\<rparr>, cacheOf [0]) = Inr (cached2, cacheOf [0])"
  by (simp add: waiting2_def cached2_def fresh2_def fileContent_def eval_defs)

text \<open>
  Counterexample to C4 as stated.  In \<open>unread2\<close>, which is \<open>waiting2\<close> after a get for
  file 1 has started to wait and file 0 has been registered as unread, file 0 is not
  consumed and is in the unread list, and a caller is waiting: the call leaves the cached
  pool empty and signals nobody.  In \<open>cached2\<close>, where a get for file 1 waits and file 0
  has landed, file 0 is not consumed, not unread and cached already: a second call for it
  leaves the in-flight counter at 1 and signals nobody.
\<close>

theorem addFileToCache_counterexample:
  "run [CallGet 1 5, CallAddUnreadedFile 0] (waiting2, cacheOf []) = Inr (unread2, cacheOf []) \<and>
   \<not> BitMap_Get (readedFilesCache unread2) 0 \<and> inUnreadList unread2 0 \<and>
   0 < sint (hasWiated unread2) \<and>
   addFileToCache unread2 (fileContent 0) =
     Inr (unread2\<lparr>unreadFileNum := 0, unreadFilesIndexs := [0, 0]\<rparr>, []) \<and>
   cachedIds (unread2\<lparr>unreadFileNum := 0, unreadFilesIndexs := [0, 0]\<rparr>) = [] \<and>
   run [CallGet 1 5, CallAddFileToCache (fileContent 0)]
     (waiting2\<lparr>prereadFileNum := 2\<rparr>, cacheOf [0]) = Inr (cached2, cacheOf [0]) \<and>
   \<not> BitMap_Get (readedFilesCache cached2) 0 \<and> \<not> inUnreadList cached2 0 \<and>
   0 < sint (hasWiated cached2) \<and> prereadFileNum cached2 = 1 \<and>
   addFileToCache cached2 (fileContent 0) = Inr (cached2, [WarnHasBeenCached 0])"
  by (intro conjI unread2_reached cached2_reached unread2_call cached2_call)
     (simp_all add: unread2_def cached2_def fresh2_def BitMap_Get_def inUnreadList_def
        cachedIds_def)

subsection \<open>The direct fetch\<close>

lemma Get_locked_Fetching_marks:
  assumes "Get_locked cache g fileId r = Inr (Fetching tempId, g1)"
  shows "BitMap_Get (readedFilesReal g1) fileId \<and> BitMap_Get (readedFilesCache g1) tempId"
proof -
  from assms obtain g0 where rm: "removeFromUnread (markReaded g0 tempId fileId) tempId = Inr g1"
    by (auto simp: Get_locked_def pbind_eq_Inr split: if_splits option.splits)
  from removeFromUnread_bitmaps [OF rm] show ?thesis
    by (simp add: markReaded_bits)
qed

text \<open>
  C5, as amended.  On the direct-fetch path the delivered-as-requested bit of the
  requested id and the consumed-from-pool bit of the candidate are set under the lock,
  before the fetch.  If the fetch fails, whatever happened to the partition in between,
  get returns the backend's error with no content and changes nothing; both bits are still
  set.
\<close>

theorem fetch_failure_keeps_marks:
  assumes direct: "Get_locked cache g fileId r = Inr (Fetching tempId, g1)"
    and between: "run xs (g1, cache) = Inr (g2, cache2)"
  shows "BitMap_Get (readedFilesReal g1) fileId \<and> BitMap_Get (readedFilesCache g1) tempId \<and>
         Get_fetched cache2 g2 tempId node (Some er) =
           Inr (Returned None CODE_EMPTY (Some er), g2, cache2) \<and>
         BitMap_Get (readedFilesReal g2) fileId \<and> BitMap_Get (readedFilesCache g2) tempId"
proof -
  note m = Get_locked_Fetching_marks [OF direct]
  from run_marked [OF between] m
  have "BitMap_Get (readedFilesReal g2) fileId \<and> BitMap_Get (readedFilesCache g2) tempId"
    by (simp add: marked_def)
  with m show ?thesis
    by (simp add: Get_fetched_def)
qed

text \<open>
  Witness for C5: a get for file 1 on a fresh partition; file 0 lands during the fetch;
  the fetch fails.
\<close>

theorem fetch_failure_keeps_marks_witness:
  "Get_locked (cacheOf []) fresh2 1 5 = Inr (Fetching 1, markReaded fresh2 1 1) \<and>
   run [CallAddFileToCache (fileContent 0)] (markReaded fresh2 1 1, cacheOf []) =
     Inr ((markReaded fresh2 1 1)\<lparr>prereadFileNum := - 1, cachedFiles := [0, 0],
            cachedFileNum := 1, cacheedFilesCache := [1, 0]\<rparr>, cacheOf []) \<and>
   Get_fetched (cacheOf [])
       ((markReaded fresh2 1 1)\<lparr>prereadFileNum := - 1, cachedFiles := [0, 0],
            cachedFileNum := 1, cacheedFilesCache := [1, 0]\<rparr>) 1 None (Some (BackendError 0)) =
     Inr (Returned None CODE_EMPTY (Some (BackendError 0)),
          (markReaded fresh2 1 1)\<lparr>prereadFileNum := - 1, cachedFiles := [0, 0],
            cachedFileNum := 1, cacheedFilesCache := [1, 0]\<rparr>, cacheOf []) \<and>
   BitMap_Get (readedFilesReal ((markReaded fresh2 1 1)\<lparr>prereadFileNum := - 1,
            cachedFiles := [0, 0], cachedFileNum := 1, cacheedFilesCache := [1, 0]\<rparr>)) 1 \<and>
   BitMap_Get (readedFilesCache ((markReaded fresh2 1 1)\<lparr>prereadFileNum := - 1,
            cachedFiles := [0, 0], cachedFileNum := 1, cacheedFilesCache := [1, 0]\<rparr>)) 1"
proof -
  have r: "run [CallAddFileToCache (fileContent 0)] (markReaded fresh2 1 1, cacheOf []) =
     Inr ((markReaded fresh2 1 1)\<lparr>prereadFileNum := - 1, cachedFiles := [0, 0],
            cachedFileNum := 1, cacheedFilesCache := [1, 0]\<rparr>, cacheOf [])"
    by (simp add: fresh2_def fileContent_def eval_defs)
  from fetch_failure_keeps_marks [OF Get_locked_fresh2 r, of None "BackendError 0"]
    Get_locked_fresh2 r
  show ?thesis
    by simp
qed

text \<open>
  Counterexample to C5 as stated: after the failed fetch for file 1, both bits of file 1
  are set.
\<close>

theorem fetch_failure_counterexample:
  "Get_locked (cacheOf []) fresh2 1 5 = Inr (Fetching 1, markReaded fresh2 1 1) \<and>
   Get_fetched (cacheOf []) (markReaded fresh2 1 1) 1 None (Some (BackendError 0)) =
     Inr (Returned None CODE_EMPTY (Some (BackendError 0)), markReaded fresh2 1 1, cacheOf []) \<and>
   BitMap_Get (readedFilesReal (markReaded fresh2 1 1)) 1 \<and>
   BitMap_Get (readedFilesCache (markReaded fresh2 1 1)) 1"
  by (simp add: Get_locked_fresh2 markReaded_bits) (simp add: Get_fetched_def)

subsection \<open>The woken waiter\<close>

lemma markCachedFileReaded_empty_pool:
  assumes "cachedFileNum g = 0" and "length (cachedFiles g) < 2 ^ 32" and "index + 1 \<noteq> 0"
  shows "\<exists>p. markCachedFileReaded g fileId index = Inl p"
proof -
  have "unat (- 1 :: u32) = 2 ^ 32 - 1"
    by (simp add: unsigned_minus_1_eq_mask mask_eq_exp_minus_1)
  with assms(2) have out: "\<not> unat (- 1 :: u32) < length (cachedFiles g)"
    by simp
  from assms(3) have ne: "index \<noteq> - 1"
    by auto
  show ?thesis
  proof (cases "wr (readedCachedFiles g) (readedCachedFileNum g) fileId")
    case (Inl p)
    then show ?thesis
      by (simp add: markCachedFileReaded_def)
  next
    case (Inr rc)
    with assms(1) ne out show ?thesis
      by (simp add: markCachedFileReaded_def Let_def rd_def)
  qed
qed

text \<open>
  C6.  A woken waiter reads from the cache once.  The claim says that it gets a typed
  error when the cache-available pool is empty.  The code panics instead, in every case:
  \<open>getRandomCachedFile\<close> takes a remainder by \<open>cachedFileNum = 0\<close>, and where the position
  entry of the requested id is not 0, \<open>markCachedFileReaded\<close> reads slot \<open>0 - 1\<close> of
  \<open>cachedFiles\<close>.  A slice made by \<open>make([]uint32, fileNum)\<close> is shorter than \<open>2^32\<close>.
\<close>

theorem Get_woken_empty_pool_panics:
  assumes empty: "cachedFileNum g = 0" and len: "length (cachedFiles g) < 2 ^ 32"
  shows "\<exists>p. Get_woken cache g fileId r = Inl p"
proof -
  let ?g = "g\<lparr>hasWiated := hasWiated g - 1\<rparr>"
  have draw: "getRandomCachedFile ?g r = Inl DivideByZero"
    using empty by (simp add: getRandomCachedFile_def)
  have "\<exists>p. getFileFromCache cache fileId ?g r = Inl p"
  proof (cases "BitMap_Get (readedFilesCache ?g) fileId")
    case True
    with draw show ?thesis
      by (simp add: getFileFromCache_def)
  next
    case False
    note nb = this
    show ?thesis
    proof (cases "rd (cacheedFilesCache ?g) fileId")
      case (Inl p)
      with nb show ?thesis
        by (simp add: getFileFromCache_def)
    next
      case (Inr val)
      show ?thesis
      proof (cases "val = 0")
        case True
        with nb Inr draw show ?thesis
          by (simp add: getFileFromCache_def)
      next
        case False
        then have "val - 1 + 1 \<noteq> 0"
          by simp
        with empty len obtain p where "markCachedFileReaded ?g fileId (val - 1) = Inl p"
          using markCachedFileReaded_empty_pool [of ?g "val - 1" fileId] by auto
        with nb Inr False show ?thesis
          by (simp add: getFileFromCache_def)
      qed
    qed
  qed
  then show ?thesis
    by (auto simp: Get_woken_def)
qed

text \<open>
  Witness for C6, the failing input: nothing unread or cached, one file in flight.  A get
  for file 0 waits; woken with the pool still empty it divides by zero.  The same happens
  when file 1 lands and another caller's get consumes it before the waiter runs.
\<close>

theorem Get_woken_empty_pool_panics_witness:
  "Get_locked (cacheOf []) waiting2 0 5 = Inr (Waiting, waiting2\<lparr>hasWiated := 1\<rparr>) \<and>
   cachedFileNum (waiting2\<lparr>hasWiated := 1\<rparr>) = 0 \<and>
   Get_woken (cacheOf []) (waiting2\<lparr>hasWiated := 1\<rparr>) 0 5 = Inl DivideByZero \<and>
   run [CallGet 0 5, CallAddFileToCache (fileContent 1), CallGet 1 7, WaiterWakes 0 9]
     (waiting2, cacheOf [1]) = Inl DivideByZero"
proof -
  have e: "cachedFileNum (waiting2\<lparr>hasWiated := 1\<rparr>) = 0"
    and l: "length (cachedFiles (waiting2\<lparr>hasWiated := 1\<rparr>)) < 2 ^ 32"
    by (simp_all add: waiting2_def fresh2_def)
  have w: "Get_locked (cacheOf []) waiting2 0 5 = Inr (Waiting, waiting2\<lparr>hasWiated := 1\<rparr>)"
    by (simp add: waiting2_def fresh2_def eval_defs)
  have k: "Get_woken (cacheOf []) (waiting2\<lparr>hasWiated := 1\<rparr>) 0 5 = Inl DivideByZero"
    by (simp add: waiting2_def fresh2_def eval_defs)
  have r: "run [CallGet 0 5, CallAddFileToCache (fileContent 1), CallGet 1 7, WaiterWakes 0 9]
     (waiting2, cacheOf [1]) = Inl DivideByZero"
    by (simp add: waiting2_def fresh2_def fileContent_def cacheOf_def eval_defs)
  from Get_woken_empty_pool_panics [OF e l, of "cacheOf []" 0 5] e w k r show ?thesis
    by simp
qed

subsection \<open>Three direct fetches\<close>

lemma u32_less_3: "unat (a :: u32) < 3 \<Longrightarrow> a = 0 \<or> a = 1 \<or> a = 2"
proof -
  assume "unat a < 3"
  then have "unat a = 0 \<or> unat a = 1 \<or> unat a = 2"
    by arith
  then show ?thesis
    by (auto simp: word_unat_eq_iff)
qed

lemma three_ids:
  fixes a b c :: u32
  assumes "unat a < 3" "unat b < 3" "unat c < 3" "a \<noteq> b" "a \<noteq> c" "b \<noteq> c"
  obtains "a = 0" "b = 1" "c = 2" | "a = 0" "b = 2" "c = 1" | "a = 1" "b = 0" "c = 2"
    | "a = 1" "b = 2" "c = 0" | "a = 2" "b = 0" "c = 1" | "a = 2" "b = 1" "c = 0"
  using assms u32_less_3 [of a] u32_less_3 [of b] u32_less_3 [of c] by auto

text \<open>
  C7, as amended.  A partition of three files, with ids \<open>a\<close>, \<open>b\<close>, \<open>c\<close>, as \<open>init\<close>
  leaves it, and no producer.  Three gets in a row, one for each id, each take the
  direct-fetch path for the requested id itself and return what the backend delivers for
  it.  A fourth get, for any of the three ids, fails with \<open>AlreadyRequested\<close>.
\<close>

theorem three_direct_fetches:
  assumes fresh: "initGroup alloc zeroDLTGroup grp = Inr g0"
    and three: "group_fileNum grp = 3"
    and ids: "unat a < 3" "unat b < 3" "unat c < 3" "a \<noteq> b" "a \<noteq> c" "b \<noteq> c"
  shows "\<exists>g1 h1 c1 g2 h2 c2 g3 h3 c3.
           Get_locked cache g0 a r1 = Inr (Fetching a, g1) \<and>
           Get_fetched cache g1 a na None = Inr (Returned na CODE_EMPTY None, h1, c1) \<and>
           Get_locked c1 h1 b r2 = Inr (Fetching b, g2) \<and>
           Get_fetched c1 g2 b nb None = Inr (Returned nb CODE_EMPTY None, h2, c2) \<and>
           Get_locked c2 h2 c r3 = Inr (Fetching c, g3) \<and>
           Get_fetched c2 g3 c nc None = Inr (Returned nc CODE_EMPTY None, h3, c3) \<and>
           Get_locked c3 h3 a r4 = Inr (Returned None CODE_EMPTY (Some (ReadAgain a)), h3) \<and>
           Get_locked c3 h3 b r4 = Inr (Returned None CODE_EMPTY (Some (ReadAgain b)), h3) \<and>
           Get_locked c3 h3 c r4 = Inr (Returned None CODE_EMPTY (Some (ReadAgain c)), h3)"
proof -
  note g0 = initGroup_Inr [OF fresh, unfolded three]
  note ev = g0 zeroDLTGroup_def nilBitMap_def replicate_3 eval_defs
  from ids show ?thesis
  proof (cases rule: three_ids)
    case 1
    then show ?thesis
      by (cases "cachedSize grp \<le> allowCacheSize grp") (simp_all add: ev)
  next
    case 2
    then show ?thesis
      by (cases "cachedSize grp \<le> allowCacheSize grp") (simp_all add: ev)
  next
    case 3
    then show ?thesis
      by (cases "cachedSize grp \<le> allowCacheSize grp") (simp_all add: ev)
  next
    case 4
    then show ?thesis
      by (cases "cachedSize grp \<le> allowCacheSize grp") (simp_all add: ev)
  next
    case 5
    then show ?thesis
      by (cases "cachedSize grp \<le> allowCacheSize grp") (simp_all add: ev)
  next
    case 6
    then show ?thesis
      by (cases "cachedSize grp \<le> allowCacheSize grp") (simp_all add: ev)
  qed
qed

lemma fresh3_init:
  "initGroup (\<lambda>_. True) zeroDLTGroup
     \<lparr>group_id = 0, group_fileNum = 3, allowCacheSize = 0, cachedSize = 0\<rparr> = Inr fresh3"
  by (simp add: initGroup_def NewBitMap_def zeroDLTGroup_def fresh3_def Let_def replicate_3)

text \<open>
  Witness for C7: the ids 0, 1, 2 in this order.
\<close>

theorem three_direct_fetches_witness:
  "\<exists>g1 h1 c1 g2 h2 c2 g3 h3 c3.
     Get_locked (cacheOf []) fresh3 0 5 = Inr (Fetching 0, g1) \<and>
     Get_fetched (cacheOf []) g1 0 (Some (fileContent 0)) None =
       Inr (Returned (Some (fileContent 0)) CODE_EMPTY None, h1, c1) \<and>
     Get_locked c1 h1 1 6 = Inr (Fetching 1, g2) \<and>
     Get_fetched c1 g2 1 (Some (fileContent 1)) None =
       Inr (Returned (Some (fileContent 1)) CODE_EMPTY None, h2, c2) \<and>
     Get_locked c2 h2 2 7 = Inr (Fetching 2, g3) \<and>
     Get_fetched c2 g3 2 (Some (fileContent 2)) None =
       Inr (Returned (Some (fileContent 2)) CODE_EMPTY None, h3, c3) \<and>
     Get_locked c3 h3 0 8 = Inr (Returned None CODE_EMPTY (Some (ReadAgain 0)), h3) \<and>
     Get_locked c3 h3 1 8 = Inr (Returned None CODE_EMPTY (Some (ReadAgain 1)), h3) \<and>
     Get_locked c3 h3 2 8 = Inr (Returned None CODE_EMPTY (Some (ReadAgain 2)), h3)"
  using three_direct_fetches [OF fresh3_init, of 0 1 2 "cacheOf []" 5 "Some (fileContent 0)" 6
      "Some (fileContent 1)" 7 "Some (fileContent 2)" 8]
  by simp

text \<open>
  Counterexample to C7 as stated: after the three gets, a fourth get for file 0 fails with
  the error of line 132, not with the error of line 223 (\<open>Exhausted\<close>).
\<close>

theorem fourth_get_counterexample:
  "run [CallGet 0 5, FetchReturns 0 (Some (fileContent 0)) None,
        CallGet 1 6, FetchReturns 1 (Some (fileContent 1)) None,
        CallGet 2 7, FetchReturns 2 (Some (fileContent 2)) None] (fresh3, cacheOf []) =
     Inr (served3, (cacheOf [])(0 := Some (fileContent 0), 1 := Some (fileContent 1),
                                2 := Some (fileContent 2))) \<and>
   Get_locked ((cacheOf [])(0 := Some (fileContent 0), 1 := Some (fileContent 1),
                            2 := Some (fileContent 2))) served3 0 8 =
     Inr (Returned None CODE_EMPTY (Some (ReadAgain 0)), served3) \<and>
   ReadAgain 0 \<noteq> NoUnreadFile 0"
  by (simp add: fresh3_def served3_def eval_defs)

subsection \<open>Admission to the content cache\<close>

text \<open>
  C8, as amended.  After a successful direct fetch, the content is stored in the shared
  content cache, and the candidate appended to the log \<open>readedCachedFiles\<close>, exactly when
  \<open>allowCacheSize >= cachedSize\<close>, that is used \<open>\<le>\<close> allowed; otherwise nothing changes.
  The budget of the partition is not changed in either case.
\<close>

theorem Get_fetched_admission:
  assumes "Get_fetched cache g tempId node None = Inr (st, g', cache')"
  shows "st = Returned node CODE_EMPTY None \<and>
         cache' = (if cachedSize (group g) \<le> allowCacheSize (group g)
                   then cache(tempId := node) else cache) \<and>
         g' = (if cachedSize (group g) \<le> allowCacheSize (group g)
               then g\<lparr>readedCachedFiles :=
                         (readedCachedFiles g)[unat (readedCachedFileNum g) := tempId],
                       readedCachedFileNum := readedCachedFileNum g + 1\<rparr>
               else g) \<and>
         group g' = group g"
  using assms
  by (auto simp: Get_fetched_def pbind_eq_Inr wr_def split: if_splits)

lemma Get_fetched_fresh2:
  "Get_fetched (cacheOf []) (markReaded fresh2 1 1) 1 (Some (fileContent 1)) None =
     Inr (Returned (Some (fileContent 1)) CODE_EMPTY None,
          (markReaded fresh2 1 1)\<lparr>readedCachedFiles := [1, 0], readedCachedFileNum := 1\<rparr>,
          (cacheOf [])(1 := Some (fileContent 1)))"
  by (simp add: Get_fetched_def markReaded_def fresh2_def wr_def)

text \<open>
  Witness for C8: a partition whose budget is used = allowed = 0.
\<close>

theorem Get_fetched_admission_witness:
  "Get_fetched (cacheOf []) (markReaded fresh2 1 1) 1 (Some (fileContent 1)) None =
     Inr (Returned (Some (fileContent 1)) CODE_EMPTY None,
          (markReaded fresh2 1 1)\<lparr>readedCachedFiles := [1, 0], readedCachedFileNum := 1\<rparr>,
          (cacheOf [])(1 := Some (fileContent 1))) \<and>
   cachedSize (group (markReaded fresh2 1 1)) \<le> allowCacheSize (group (markReaded fresh2 1 1)) \<and>
   group ((markReaded fresh2 1 1)\<lparr>readedCachedFiles := [1, 0], readedCachedFileNum := 1\<rparr>) =
     group (markReaded fresh2 1 1)"
  using Get_fetched_admission [OF Get_fetched_fresh2] Get_fetched_fresh2
  by (simp add: markReaded_def fresh2_def)

text \<open>
  Counterexample to C8 as stated: with used = allowed = 0, so not used \<open><\<close> allowed, the
  fetched content of file 1 is stored in the content cache.
\<close>

theorem Get_fetched_admission_counterexample:
  "\<not> cachedSize (group (markReaded fresh2 1 1)) < allowCacheSize (group (markReaded fresh2 1 1)) \<and>
   cacheOf [] 1 = None \<and>
   Get_fetched (cacheOf []) (markReaded fresh2 1 1) 1 (Some (fileContent 1)) None =
     Inr (Returned (Some (fileContent 1)) CODE_EMPTY None,
          (markReaded fresh2 1 1)\<lparr>readedCachedFiles := [1, 0], readedCachedFileNum := 1\<rparr>,
          (cacheOf [])(1 := Some (fileContent 1))) \<and>
   ((cacheOf [])(1 := Some (fileContent 1))) 1 = Some (fileContent 1)"
  by (simp add: Get_fetched_fresh2) (simp add: markReaded_def fresh2_def cacheOf_def)

subsection \<open>\<open>addUnreadedFile\<close>\<close>

lemma addUnreadedFile_Inr:
  assumes "addUnreadedFile g fileId = Inr g1"
  shows "g1 = g \<or>
         (unat (unreadFileNum g) < length (unreadFiles g) \<and>
          rd (unreadFilesIndexs g1) fileId = Inr (unreadFileNum g + 1))"
  using assms
  by (auto simp: addUnreadedFile_def pbind_eq_Inr rd_def wr_def Let_def split: if_splits)

text \<open>
  C9.  \<open>register_unread\<close> (\<open>addUnreadedFile\<close>) twice for the same id is the same as
  once, for every id: the second call finds the position entry that the first one wrote
  and returns at once, so the id is inserted once and the in-flight counter decremented
  once.  A slice made by \<open>make([]uint32, fileNum)\<close> is shorter than \<open>2^32\<close>.
\<close>

theorem addUnreadedFile_idempotent:
  assumes len: "length (unreadFiles g) < 2 ^ 32"
  shows "pbind (addUnreadedFile g fileId) (\<lambda>g1. addUnreadedFile g1 fileId) =
           addUnreadedFile g fileId"
proof (cases "addUnreadedFile g fileId")
  case (Inl p)
  then show ?thesis
    by simp
next
  case (Inr g1)
  from addUnreadedFile_Inr [OF Inr] show ?thesis
  proof
    assume "g1 = g"
    with Inr show ?thesis
      by simp
  next
    assume ins: "unat (unreadFileNum g) < length (unreadFiles g) \<and>
      rd (unreadFilesIndexs g1) fileId = Inr (unreadFileNum g + 1)"
    then have "unreadFileNum g + 1 \<noteq> 0"
      using unat_Suc_room(2) [OF _ len] by blast
    with ins have "addUnreadedFile g1 fileId = Inr g1"
      by (simp add: addUnreadedFile_def)
    with Inr show ?thesis
      by simp
  qed
qed

lemma waiting2_register:
  "addUnreadedFile waiting2 1 =
     Inr (waiting2\<lparr>prereadFileNum := 0, unreadFiles := [1, 0], unreadFileNum := 1,
                   unreadFilesIndexs := [0, 1]\<rparr>)"
  by (simp add: waiting2_def fresh2_def eval_defs)

text \<open>
  Witness for C9: file 1 is registered in a partition with an empty unread pool and one
  file in flight.
\<close>

theorem addUnreadedFile_idempotent_witness:
  "length (unreadFiles waiting2) < 2 ^ 32 \<and> prereadFileNum waiting2 = 1 \<and>
   unreadIds waiting2 = [] \<and>
   addUnreadedFile waiting2 1 =
     Inr (waiting2\<lparr>prereadFileNum := 0, unreadFiles := [1, 0], unreadFileNum := 1,
                   unreadFilesIndexs := [0, 1]\<rparr>) \<and>
   pbind (addUnreadedFile waiting2 1) (\<lambda>g1. addUnreadedFile g1 1) =
     Inr (waiting2\<lparr>prereadFileNum := 0, unreadFiles := [1, 0], unreadFileNum := 1,
                   unreadFilesIndexs := [0, 1]\<rparr>) \<and>
   unreadIds (waiting2\<lparr>prereadFileNum := 0, unreadFiles := [1, 0], unreadFileNum := 1,
                   unreadFilesIndexs := [0, 1]\<rparr>) = [1]"
proof -
  have l: "length (unreadFiles waiting2) < 2 ^ 32"
    by (simp add: waiting2_def fresh2_def)
  from addUnreadedFile_idempotent [OF l, of 1] l waiting2_register show ?thesis
    by (simp add: waiting2_def fresh2_def unreadIds_def)
qed

subsection \<open>The in-flight counter\<close>

text \<open>
  C10.  The in-flight counter \<open>prereadFileNum\<close> is a \<open>uint32\<close> that \<open>addUnreadedFile\<close>
  and \<open>addFileToCache\<close> decrement without a test.  Called with the counter at 0, for an id
  that is not unread, not consumed and not cached, and with room in the pool they append
  to, each leaves the counter at \<open>2^32 - 1\<close>, and the test \<open>prereadFileNum > 0\<close> of line 205
  is true.
\<close>

theorem prereadFileNum_wraps:
  assumes zero: "prereadFileNum g = 0"
    and inr: "unat fileId < length (unreadFilesIndexs g)" "unat fileId < length (cacheedFilesCache g)"
    and nu: "\<not> inUnreadList g fileId"
    and nr: "\<not> BitMap_Get (readedFilesCache g) fileId"
    and nc: "\<not> inCachedList g fileId"
    and room: "unat (unreadFileNum g) < length (unreadFiles g)"
      "unat (cachedFileNum g) < length (cachedFiles g)"
    and node: "node_fileId node = fileId"
  shows "(\<exists>g1. addUnreadedFile g fileId = Inr g1 \<and> prereadFileNum g1 = 0xFFFFFFFF \<and>
               unat (prereadFileNum g1) = 2 ^ 32 - 1 \<and> 0 < prereadFileNum g1) \<and>
         (\<exists>g2 out. addFileToCache g node = Inr (g2, out) \<and> prereadFileNum g2 = 0xFFFFFFFF \<and>
               unat (prereadFileNum g2) = 2 ^ 32 - 1 \<and> 0 < prereadFileNum g2)"
proof -
  have m: "unat (- 1 :: u32) = 2 ^ 32 - 1" "(0 :: u32) < - 1"
    by (simp_all add: unsigned_minus_1_eq_mask mask_eq_exp_minus_1 word_gt_0)
  from inr nu nc have z: "unreadFilesIndexs g ! unat fileId = 0" "cacheedFilesCache g ! unat fileId = 0"
    by (simp_all add: inUnreadList_def inCachedList_def)
  from zero inr nr room z have "\<exists>g1. addUnreadedFile g fileId = Inr g1 \<and> prereadFileNum g1 = 0 - 1"
    by (simp add: addUnreadedFile_def rd_def wr_def Let_def)
  moreover
  from zero inr nr room z node
  have "\<exists>g2 out. addFileToCache g node = Inr (g2, out) \<and> prereadFileNum g2 = 0 - 1"
    by (simp add: addFileToCache_def rd_def wr_def Let_def)
  ultimately show ?thesis
    using m by auto
qed

text \<open>
  Witness for C10: a partition of two files with nothing unread, cached or in flight.
  After file 0 has landed and has been read in place of file 1, a get for file 0 waits,
  although nothing is in flight.
\<close>

theorem prereadFileNum_wraps_witness:
  "prereadFileNum drained2 = 0 \<and>
   addUnreadedFile drained2 0 =
     Inr (drained2\<lparr>prereadFileNum := 0xFFFFFFFF, unreadFiles := [0, 0], unreadFileNum := 1,
                   unreadFilesIndexs := [1, 0]\<rparr>) \<and>
   addFileToCache drained2 (fileContent 0) =
     Inr (drained2\<lparr>prereadFileNum := 0xFFFFFFFF, cachedFiles := [0, 0], cachedFileNum := 1,
                   cacheedFilesCache := [1, 0]\<rparr>, []) \<and>
   (0 :: u32) < 0xFFFFFFFF \<and>
   run [CallAddFileToCache (fileContent 0), CallGet 1 5] (drained2, cacheOf [0]) =
     Inr ((markReaded drained2 0 1)\<lparr>prereadFileNum := 0xFFFFFFFF, readedCachedFiles := [0, 0],
            readedCachedFileNum := 1\<rparr>, cacheOf [0]) \<and>
   Get_locked (cacheOf [0])
     ((markReaded drained2 0 1)\<lparr>prereadFileNum := 0xFFFFFFFF, readedCachedFiles := [0, 0],
            readedCachedFileNum := 1\<rparr>) 0 7 =
     Inr (Waiting, (markReaded drained2 0 1)\<lparr>prereadFileNum := 0xFFFFFFFF,
            readedCachedFiles := [0, 0], readedCachedFileNum := 1, hasWiated := 1\<rparr>)"
proof -
  have h: "prereadFileNum drained2 = 0"
    "unat (0 :: u32) < length (unreadFilesIndexs drained2)"
    "unat (0 :: u32) < length (cacheedFilesCache drained2)"
    "\<not> inUnreadList drained2 0" "\<not> BitMap_Get (readedFilesCache drained2) 0"
    "\<not> inCachedList drained2 0"
    "unat (unreadFileNum drained2) < length (unreadFiles drained2)"
    "unat (cachedFileNum drained2) < length (cachedFiles drained2)"
    "node_fileId (fileContent 0) = 0"
    by (simp_all add: drained2_def fresh2_def inUnreadList_def inCachedList_def BitMap_Get_def
          fileContent_def)
  have e: "addUnreadedFile drained2 0 =
     Inr (drained2\<lparr>prereadFileNum := 0xFFFFFFFF, unreadFiles := [0, 0], unreadFileNum := 1,
                   unreadFilesIndexs := [1, 0]\<rparr>)"
    "addFileToCache drained2 (fileContent 0) =
     Inr (drained2\<lparr>prereadFileNum := 0xFFFFFFFF, cachedFiles := [0, 0], cachedFileNum := 1,
                   cacheedFilesCache := [1, 0]\<rparr>, [])"
    by (simp_all add: drained2_def fresh2_def fileContent_def eval_defs)
  have r: "run [CallAddFileToCache (fileContent 0), CallGet 1 5] (drained2, cacheOf [0]) =
     Inr ((markReaded drained2 0 1)\<lparr>prereadFileNum := 0xFFFFFFFF, readedCachedFiles := [0, 0],
            readedCachedFileNum := 1\<rparr>, cacheOf [0])"
    by (simp add: drained2_def fresh2_def fileContent_def cacheOf_def eval_defs)
  have w: "Get_locked (cacheOf [0])
     ((markReaded drained2 0 1)\<lparr>prereadFileNum := 0xFFFFFFFF, readedCachedFiles := [0, 0],
            readedCachedFileNum := 1\<rparr>) 0 7 =
     Inr (Waiting, (markReaded drained2 0 1)\<lparr>prereadFileNum := 0xFFFFFFFF,
            readedCachedFiles := [0, 0], readedCachedFileNum := 1, hasWiated := 1\<rparr>)"
    by (simp add: drained2_def fresh2_def eval_defs)
  from prereadFileNum_wraps [OF h] h(1) e r w show ?thesis
    by simp
qed

end
